theory Spec2Isabelle
  imports Main "HOL-Library.AList" "HOL-Library.Multiset"
begin

section \<open>Storage engine of the portfolio site\<close>

text \<open>
  The development embeds \<^verbatim>\<open>server/storage.ts\<close> (class \<^verbatim>\<open>MemStorage\<close>, the store the
  server instantiates) and, for \<^verbatim>\<open>updateProject\<close>, the relational sibling
  \<^verbatim>\<open>DatabaseStorage\<close>.

  Conventions of the embedding:
  \<^item> a \<^verbatim>\<open>Date\<close> is its \<^verbatim>\<open>getTime()\<close> value, an \<open>int\<close> of milliseconds;
  \<^item> every evaluation of \<^verbatim>\<open>new Date()\<close> is a separate reading of the clock and is an
    explicit argument of the operation, in the order in which the source evaluates them;
  \<^item> identifiers are JavaScript numbers, that is doubles, which hold integers here; they
    are \<open>int\<close>, and the one arithmetic step on them, the \<^verbatim>\<open>++\<close> of a counter, is
    written out with the rounding of the double at \<open>2^53\<close>;
  \<^item> \<^verbatim>\<open>null\<close> and \<^verbatim>\<open>undefined\<close> of an optional field are both \<open>None\<close>: the source
    only ever tests such a field with \<^verbatim>\<open>||\<close>, which does not tell them apart;
  \<^item> a \<^verbatim>\<open>throw\<close> is the left injection of a sum, a normal return the right one,
    carrying the new state and the returned value.
\<close>

subsection \<open>JavaScript truthiness of optional values\<close>

text \<open>\<^verbatim>\<open>x || null\<close> on an optional string: the empty string is falsy.\<close>

definition str_or_null :: "string option \<Rightarrow> string option" where
  "str_or_null x = (case x of None \<Rightarrow> None | Some v \<Rightarrow> if v = [] then None else Some v)"

text \<open>\<^verbatim>\<open>x || d\<close> on an optional string with a string default.\<close>

definition str_or :: "string option \<Rightarrow> string \<Rightarrow> string" where
  "str_or x d = (case x of None \<Rightarrow> d | Some v \<Rightarrow> if v = [] then d else v)"

text \<open>\<^verbatim>\<open>x || null\<close> on an optional array: every array, also the empty one, is truthy.\<close>

definition arr_or_null :: "'a list option \<Rightarrow> 'a list option" where
  "arr_or_null x = (case x of None \<Rightarrow> None | Some v \<Rightarrow> Some v)"

subsection \<open>Counters\<close>

text \<open>
  The value that \<^verbatim>\<open>n++\<close> leaves in a counter. The counter is a double: up to
  \<open>2^53\<close> the sum \<open>n + 1\<close> is exact, and at \<open>2^53\<close> the sum lies halfway between two
  doubles and rounds back to \<open>2^53\<close>, so the counter stays where it is. A counter that
  starts at 1 holds no other values than the integers from 1 to \<open>2^53\<close>.
\<close>

definition post_increment :: "int \<Rightarrow> int" where
  "post_increment n = (if n < 2 ^ 53 then n + 1 else n)"

subsection \<open>Entities (\<^verbatim>\<open>shared/schema.ts\<close>)\<close>

text \<open>
  The select types of the four tables. The timestamps of a user are nullable in the
  code's own treatment (\<^verbatim>\<open>existingUser?.createdAt || new Date()\<close>); those of projects,
  media and contacts are dereferenced with \<^verbatim>\<open>!\<close> and are written with \<^verbatim>\<open>new Date()\<close>
  on every path, so they are plain timestamps.
\<close>

record User =
  user_id :: string
  user_email :: "string option"
  user_firstName :: "string option"
  user_lastName :: "string option"
  user_profileImageUrl :: "string option"
  user_createdAt :: "int option"
  user_updatedAt :: "int option"

record Project =
  project_id :: int
  project_title :: string
  project_slug :: string
  project_description :: string
  project_content :: string
  project_featuredImage :: "string option"
  project_category :: string
  project_tags :: "string list option"
  project_status :: string
  project_authorId :: "string option"
  project_createdAt :: int
  project_updatedAt :: int

record Media =
  media_id :: int
  media_filename :: string
  media_originalName :: string
  media_mimeType :: string
  media_size :: string
  media_url :: string
  media_altText :: "string option"
  media_uploadedBy :: "string option"
  media_createdAt :: int

record ContactSubmission =
  contact_id :: int
  contact_name :: string
  contact_email :: string
  contact_subject :: string
  contact_message :: string
  contact_status :: string
  contact_createdAt :: int

subsection \<open>Payloads\<close>

text \<open>\<^verbatim>\<open>UpsertUser\<close>: the insert schema of users without the two timestamps.\<close>

record UpsertUser =
  uu_id :: "string option"
  uu_email :: "string option"
  uu_firstName :: "string option"
  uu_lastName :: "string option"
  uu_profileImageUrl :: "string option"

text \<open>\<^verbatim>\<open>InsertProject\<close>: the insert schema of projects without id and timestamps.\<close>

record InsertProject =
  ip_title :: string
  ip_slug :: string
  ip_description :: string
  ip_content :: string
  ip_featuredImage :: "string option"
  ip_category :: string
  ip_tags :: "string list option"
  ip_status :: "string option"
  ip_authorId :: "string option"

text \<open>
  \<^verbatim>\<open>Partial<InsertProject>\<close>: every key may be missing (\<open>None\<close>). A nullable column
  that is supplied carries \<open>Some None\<close> for \<^verbatim>\<open>null\<close>. The type has no key \<^verbatim>\<open>id\<close>,
  \<^verbatim>\<open>createdAt\<close> or \<^verbatim>\<open>updatedAt\<close>. (A key that is present and holds \<^verbatim>\<open>undefined\<close>
  does not come out of the route's schema parse and is not represented.)
\<close>

record PartialProject =
  pp_title :: "string option"
  pp_slug :: "string option"
  pp_description :: "string option"
  pp_content :: "string option"
  pp_featuredImage :: "string option option"
  pp_category :: "string option"
  pp_tags :: "string list option option"
  pp_status :: "string option"
  pp_authorId :: "string option option"

text \<open>\<^verbatim>\<open>InsertMedia\<close>: the insert schema of media without id and timestamp.\<close>

record InsertMedia =
  im_filename :: string
  im_originalName :: string
  im_mimeType :: string
  im_size :: string
  im_url :: string
  im_altText :: "string option"
  im_uploadedBy :: "string option"

text \<open>
  \<^verbatim>\<open>InsertContact\<close>: name, email, subject and message. The declared type omits the
  keys \<^verbatim>\<open>id\<close>, \<^verbatim>\<open>status\<close> and \<^verbatim>\<open>createdAt\<close> of a contact; \<open>ic_id\<close>,
  \<open>ic_status\<close> and \<open>ic_createdAt\<close> stand for such a key that a caller's object carries
  all the same (\<open>None\<close> when it carries none), with a value of the column's type,
  which the object spread of \<^verbatim>\<open>createContact\<close> copies. \<^verbatim>\<open>createProject\<close> and \<^verbatim>\<open>createMedia\<close> read their
  payload key by key and never see a key outside the declared type, so
  \<open>InsertProject\<close> and \<open>InsertMedia\<close> have none.
\<close>

record InsertContact =
  ic_name :: string
  ic_email :: string
  ic_subject :: string
  ic_message :: string
  ic_id :: "int option"
  ic_status :: "string option"
  ic_createdAt :: "int option"

subsection \<open>The JavaScript \<^verbatim>\<open>Map\<close>\<close>

text \<open>
  A \<^verbatim>\<open>Map\<close> iterates in insertion order: it is an association list. \<^verbatim>\<open>set\<close> on a
  key that is present replaces the value in place, on a new key it appends;
  \<^verbatim>\<open>delete\<close> on a missing key does nothing.
\<close>

type_synonym ('k, 'v) js_map = "('k \<times> 'v) list"

definition Map_get :: "('k, 'v) js_map \<Rightarrow> 'k \<Rightarrow> 'v option" where
  "Map_get m k = map_of m k"

definition Map_set :: "('k, 'v) js_map \<Rightarrow> 'k \<Rightarrow> 'v \<Rightarrow> ('k, 'v) js_map" where
  "Map_set m k v = AList.update k v m"

definition Map_delete :: "('k, 'v) js_map \<Rightarrow> 'k \<Rightarrow> ('k, 'v) js_map" where
  "Map_delete m k = AList.delete k m"

definition Map_values :: "('k, 'v) js_map \<Rightarrow> 'v list" where
  "Map_values m = map snd m"

definition Map_keys :: "('k, 'v) js_map \<Rightarrow> 'k list" where
  "Map_keys m = map fst m"

subsection \<open>\<^verbatim>\<open>MemStorage\<close>: state and errors\<close>

record MemStorage =
  users :: "(string, User) js_map"
  projects :: "(int, Project) js_map"
  media :: "(int, Media) js_map"
  contacts :: "(int, ContactSubmission) js_map"
  nextProjectId :: int
  nextMediaId :: int
  nextContactId :: int

text \<open>The state of \<^verbatim>\<open>new MemStorage()\<close>.\<close>

definition new_MemStorage :: MemStorage where
  "new_MemStorage =
     \<lparr>users = [], projects = [], media = [], contacts = [],
      nextProjectId = 1, nextMediaId = 1, nextContactId = 1\<rparr>"

text \<open>
  The two \<^verbatim>\<open>throw new Error(...)\<close> of the class:
  \<^verbatim>\<open>"User ID is required"\<close> and \<^verbatim>\<open>`Project with id ${id} not found`\<close>.
\<close>

datatype error = UserIdRequired | ProjectNotFound int

subsection \<open>User operations\<close>

definition getUser :: "MemStorage \<Rightarrow> string \<Rightarrow> User option" where
  "getUser s uid = Map_get (users s) uid"

text \<open>
  \<^verbatim>\<open>upsertUser\<close>. \<open>now1\<close> is the reading of the \<^verbatim>\<open>new Date()\<close> on the right of
  \<^verbatim>\<open>existingUser?.createdAt ||\<close> (taken only when the left side is falsy), \<open>now2\<close>
  the reading for \<^verbatim>\<open>updatedAt\<close>.
\<close>

definition upsertUser ::
  "MemStorage \<Rightarrow> UpsertUser \<Rightarrow> int \<Rightarrow> int \<Rightarrow> error + (MemStorage \<times> User)" where
  "upsertUser s userData now1 now2 =
     (case str_or_null (uu_id userData) of
        None \<Rightarrow> Inl UserIdRequired
      | Some uid \<Rightarrow>
          (let existingUser = Map_get (users s) uid;
               user = \<lparr>user_id = uid,
                       user_email = str_or_null (uu_email userData),
                       user_firstName = str_or_null (uu_firstName userData),
                       user_lastName = str_or_null (uu_lastName userData),
                       user_profileImageUrl = str_or_null (uu_profileImageUrl userData),
                       user_createdAt =
                         (case existingUser of
                            None \<Rightarrow> Some now1
                          | Some e \<Rightarrow>
                              (case user_createdAt e of None \<Rightarrow> Some now1 | Some c \<Rightarrow> Some c)),
                       user_updatedAt = Some now2\<rparr>
           in Inr (s\<lparr>users := Map_set (users s) uid user\<rparr>, user)))"

subsection \<open>Project operations\<close>

text \<open>
  The comparator \<^verbatim>\<open>(a, b) => b.createdAt!.getTime() - a.createdAt!.getTime()\<close> orders by
  descending creation time; \<^verbatim>\<open>Array.prototype.sort\<close> is stable, so records with
  equal times keep their order in the array.
\<close>

definition sort_newest_first :: "('a \<Rightarrow> int) \<Rightarrow> 'a list \<Rightarrow> 'a list" where
  "sort_newest_first created xs = sort_key (\<lambda>a. - created a) xs"

text \<open>\<^verbatim>\<open>status ? ... : allProjects\<close>: a missing or empty status does not filter.\<close>

definition getProjects :: "MemStorage \<Rightarrow> string option \<Rightarrow> Project list" where
  "getProjects s status =
     (let allProjects = Map_values (projects s);
          filtered =
            (case str_or_null status of
               Some st \<Rightarrow> filter (\<lambda>p. project_status p = st) allProjects
             | None \<Rightarrow> allProjects)
      in sort_newest_first project_createdAt filtered)"

definition getProject :: "MemStorage \<Rightarrow> int \<Rightarrow> Project option" where
  "getProject s i = Map_get (projects s) i"

definition getProjectBySlug :: "MemStorage \<Rightarrow> string \<Rightarrow> Project option" where
  "getProjectBySlug s slug = find (\<lambda>p. project_slug p = slug) (Map_values (projects s))"

text \<open>
  \<^verbatim>\<open>createProject\<close>. \<open>now1\<close> and \<open>now2\<close> are the readings of the two
  \<^verbatim>\<open>new Date()\<close> of the object literal, for \<^verbatim>\<open>createdAt\<close> and \<^verbatim>\<open>updatedAt\<close>.
\<close>

definition createProject ::
  "MemStorage \<Rightarrow> InsertProject \<Rightarrow> int \<Rightarrow> int \<Rightarrow> error + (MemStorage \<times> Project)" where
  "createProject s projectData now1 now2 =
     (let i = nextProjectId s;
          s1 = s\<lparr>nextProjectId := post_increment i\<rparr>;
          project = \<lparr>project_id = i,
                     project_title = ip_title projectData,
                     project_slug = ip_slug projectData,
                     project_description = ip_description projectData,
                     project_content = ip_content projectData,
                     project_featuredImage = str_or_null (ip_featuredImage projectData),
                     project_category = ip_category projectData,
                     project_tags = arr_or_null (ip_tags projectData),
                     project_status = str_or (ip_status projectData) ''draft'',
                     project_authorId = str_or_null (ip_authorId projectData),
                     project_createdAt = now1,
                     project_updatedAt = now2\<rparr>
      in Inr (s1\<lparr>projects := Map_set (projects s1) i project\<rparr>, project))"

text \<open>The object spread \<^verbatim>\<open>{ ...existing, ...projectData }\<close>: a key of the payload wins.\<close>

definition spread_project :: "Project \<Rightarrow> PartialProject \<Rightarrow> Project" where
  "spread_project existing projectData =
     existing\<lparr>
       project_title := (case pp_title projectData of None \<Rightarrow> project_title existing | Some v \<Rightarrow> v),
       project_slug := (case pp_slug projectData of None \<Rightarrow> project_slug existing | Some v \<Rightarrow> v),
       project_description :=
         (case pp_description projectData of None \<Rightarrow> project_description existing | Some v \<Rightarrow> v),
       project_content :=
         (case pp_content projectData of None \<Rightarrow> project_content existing | Some v \<Rightarrow> v),
       project_featuredImage :=
         (case pp_featuredImage projectData of None \<Rightarrow> project_featuredImage existing | Some v \<Rightarrow> v),
       project_category :=
         (case pp_category projectData of None \<Rightarrow> project_category existing | Some v \<Rightarrow> v),
       project_tags := (case pp_tags projectData of None \<Rightarrow> project_tags existing | Some v \<Rightarrow> v),
       project_status :=
         (case pp_status projectData of None \<Rightarrow> project_status existing | Some v \<Rightarrow> v),
       project_authorId :=
         (case pp_authorId projectData of None \<Rightarrow> project_authorId existing | Some v \<Rightarrow> v)\<rparr>"

definition updateProject ::
  "MemStorage \<Rightarrow> int \<Rightarrow> PartialProject \<Rightarrow> int \<Rightarrow> error + (MemStorage \<times> Project)" where
  "updateProject s i projectData now =
     (case Map_get (projects s) i of
        None \<Rightarrow> Inl (ProjectNotFound i)
      | Some existing \<Rightarrow>
          (let updated = (spread_project existing projectData)\<lparr>project_updatedAt := now\<rparr>
           in Inr (s\<lparr>projects := Map_set (projects s) i updated\<rparr>, updated)))"

definition deleteProject :: "MemStorage \<Rightarrow> int \<Rightarrow> error + (MemStorage \<times> unit)" where
  "deleteProject s i = Inr (s\<lparr>projects := Map_delete (projects s) i\<rparr>, ())"

subsection \<open>Media operations\<close>

definition getMedia :: "MemStorage \<Rightarrow> Media list" where
  "getMedia s = sort_newest_first media_createdAt (Map_values (media s))"

definition getMediaById :: "MemStorage \<Rightarrow> int \<Rightarrow> Media option" where
  "getMediaById s i = Map_get (media s) i"

definition createMedia ::
  "MemStorage \<Rightarrow> InsertMedia \<Rightarrow> int \<Rightarrow> error + (MemStorage \<times> Media)" where
  "createMedia s mediaData now =
     (let i = nextMediaId s;
          s1 = s\<lparr>nextMediaId := post_increment i\<rparr>;
          m = \<lparr>media_id = i,
               media_filename = im_filename mediaData,
               media_originalName = im_originalName mediaData,
               media_mimeType = im_mimeType mediaData,
               media_size = im_size mediaData,
               media_url = im_url mediaData,
               media_altText = str_or_null (im_altText mediaData),
               media_uploadedBy = str_or_null (im_uploadedBy mediaData),
               media_createdAt = now\<rparr>
      in Inr (s1\<lparr>media := Map_set (media s1) i m\<rparr>, m))"

definition deleteMedia :: "MemStorage \<Rightarrow> int \<Rightarrow> error + (MemStorage \<times> unit)" where
  "deleteMedia s i = Inr (s\<lparr>media := Map_delete (media s) i\<rparr>, ())"

subsection \<open>Contact operations\<close>

definition getContacts :: "MemStorage \<Rightarrow> ContactSubmission list" where
  "getContacts s = sort_newest_first contact_createdAt (Map_values (contacts s))"

text \<open>
  \<^verbatim>\<open>createContact\<close> builds \<^verbatim>\<open>{ id, ...contactData, status: "new", createdAt: new Date() }\<close>.
  The literal is followed key by key. It writes \<^verbatim>\<open>id\<close> first, from the counter. The
  spread then writes the payload's keys: an \<^verbatim>\<open>id\<close> of the payload replaces the
  counter's, and a \<^verbatim>\<open>status\<close> or \<^verbatim>\<open>createdAt\<close> of the payload is written too. The
  two later keys then overwrite \<^verbatim>\<open>status\<close> and \<^verbatim>\<open>createdAt\<close>. In \<open>spread\<close> a
  key that the literal has not written yet shows a placeholder (the empty string, the
  time 0). The record is stored under the counter's value, whatever its own \<^verbatim>\<open>id\<close>.
\<close>

definition createContact ::
  "MemStorage \<Rightarrow> InsertContact \<Rightarrow> int \<Rightarrow> error + (MemStorage \<times> ContactSubmission)" where
  "createContact s contactData now =
     (let i = nextContactId s;
          s1 = s\<lparr>nextContactId := post_increment i\<rparr>;
          spread = \<lparr>contact_id = (case ic_id contactData of None \<Rightarrow> i | Some v \<Rightarrow> v),
                    contact_name = ic_name contactData,
                    contact_email = ic_email contactData,
                    contact_subject = ic_subject contactData,
                    contact_message = ic_message contactData,
                    contact_status = (case ic_status contactData of None \<Rightarrow> [] | Some v \<Rightarrow> v),
                    contact_createdAt =
                      (case ic_createdAt contactData of None \<Rightarrow> 0 | Some v \<Rightarrow> v)\<rparr>;
          contact = spread\<lparr>contact_status := ''new'', contact_createdAt := now\<rparr>
      in Inr (s1\<lparr>contacts := Map_set (contacts s1) i contact\<rparr>, contact))"

definition updateContactStatus ::
  "MemStorage \<Rightarrow> int \<Rightarrow> string \<Rightarrow> error + (MemStorage \<times> unit)" where
  "updateContactStatus s i status =
     (case Map_get (contacts s) i of
        Some existing \<Rightarrow>
          Inr (s\<lparr>contacts := Map_set (contacts s) i (existing\<lparr>contact_status := status\<rparr>)\<rparr>, ())
      | None \<Rightarrow> Inr (s, ()))"

subsection \<open>Histories of operations\<close>

text \<open>
  A process lifetime is a finite history of calls on the one \<^verbatim>\<open>MemStorage\<close> object,
  starting from \<^verbatim>\<open>new MemStorage()\<close>. The histories here are made of the creates and
  the deletes of the three entity types with numeric identifiers. \<open>step\<close> also reports
  the identifier that a create handed out, read from the record the call returned.
\<close>

datatype entity = ProjectEntity | MediaEntity | ContactEntity

datatype storage_op =
    CreateProject InsertProject int int
  | DeleteProject int
  | CreateMedia InsertMedia int
  | DeleteMedia int
  | CreateContact InsertContact int

definition state_after :: "MemStorage \<Rightarrow> error + (MemStorage \<times> 'a) \<Rightarrow> MemStorage" where
  "state_after s r = (case r of Inl e \<Rightarrow> s | Inr (s', v) \<Rightarrow> s')"

definition returned :: "error + (MemStorage \<times> 'a) \<Rightarrow> 'a option" where
  "returned r = (case r of Inl e \<Rightarrow> None | Inr (s', v) \<Rightarrow> Some v)"

definition assigned :: "entity \<Rightarrow> ('a \<Rightarrow> int) \<Rightarrow> error + (MemStorage \<times> 'a) \<Rightarrow> (entity \<times> int) list" where
  "assigned e ident r = (case returned r of None \<Rightarrow> [] | Some v \<Rightarrow> [(e, ident v)])"

fun step :: "MemStorage \<Rightarrow> storage_op \<Rightarrow> MemStorage \<times> (entity \<times> int) list" where
  "step s (CreateProject projectData now1 now2) =
     (let r = createProject s projectData now1 now2
      in (state_after s r, assigned ProjectEntity project_id r))"
| "step s (DeleteProject i) = (state_after s (deleteProject s i), [])"
| "step s (CreateMedia mediaData now) =
     (let r = createMedia s mediaData now
      in (state_after s r, assigned MediaEntity media_id r))"
| "step s (DeleteMedia i) = (state_after s (deleteMedia s i), [])"
| "step s (CreateContact contactData now) =
     (let r = createContact s contactData now
      in (state_after s r, assigned ContactEntity contact_id r))"

fun run :: "MemStorage \<Rightarrow> storage_op list \<Rightarrow> MemStorage \<times> (entity \<times> int) list" where
  "run s [] = (s, [])"
| "run s (x # xs) =
     (let (s1, a) = step s x; (s2, as) = run s1 xs in (s2, a @ as))"

text \<open>A call whose payload is of the declared type: it carries no \<^verbatim>\<open>id\<close> of its own.\<close>

fun carries_no_id :: "storage_op \<Rightarrow> bool" where
  "carries_no_id (CreateContact contactData now) = (ic_id contactData = None)"
| "carries_no_id (CreateProject projectData now1 now2) = True"
| "carries_no_id (DeleteProject i) = True"
| "carries_no_id (CreateMedia mediaData now) = True"
| "carries_no_id (DeleteMedia i) = True"

text \<open>The counter that names the next identifier of an entity type.\<close>

fun counter :: "entity \<Rightarrow> MemStorage \<Rightarrow> int" where
  "counter ProjectEntity s = nextProjectId s"
| "counter MediaEntity s = nextMediaId s"
| "counter ContactEntity s = nextContactId s"

text \<open>
  The invariant of the store: every key is below its counter, no key occurs twice, and
  every record sits under its own identifier.
\<close>

definition store_inv :: "MemStorage \<Rightarrow> bool" where
  "store_inv s \<longleftrightarrow>
     list_all (\<lambda>(k, p). k < nextProjectId s \<and> project_id p = k) (projects s) \<and>
     list_all (\<lambda>(k, m). k < nextMediaId s \<and> media_id m = k) (media s) \<and>
     list_all (\<lambda>(k, c). k < nextContactId s \<and> contact_id c = k) (contacts s) \<and>
     distinct (Map_keys (projects s)) \<and> distinct (Map_keys (media s)) \<and>
     distinct (Map_keys (contacts s))"

subsection \<open>\<^verbatim>\<open>DatabaseStorage.updateProject\<close>\<close>

text \<open>
  The relational sibling of \<^verbatim>\<open>MemStorage\<close> runs its statements through the \<^verbatim>\<open>db\<close>
  handle of \<^verbatim>\<open>server/db.ts\<close>. That module and the store behind it are described by
  the definitions up to \<open>db_update_projects_returning\<close>. A table is the list of its
  rows, with the select types above as row types.
\<close>

record Database =
  db_users :: "User list"
  db_projects :: "Project list"

datatype db_error = StringTooLong | UniqueViolation | ForeignKeyViolation

text \<open>
  The length bounds that \<^verbatim>\<open>shared/schema.ts\<close> declares for the columns of a project:
  \<^verbatim>\<open>varchar\<close> of length 255 for title and slug, 100 for the category, 50 for the
  status. The other columns are unbounded.
\<close>

definition project_fits_columns :: "Project \<Rightarrow> bool" where
  "project_fits_columns p \<longleftrightarrow>
     length (project_title p) \<le> 255 \<and> length (project_slug p) \<le> 255 \<and>
     length (project_category p) \<le> 100 \<and> length (project_status p) \<le> 50"

text \<open>
  Modelled from the spec: the constraints that the missing relational store checks on
  the project table. A value longer than its column is refused. By the persisted layout
  \<^verbatim>\<open>projects.slug\<close> is unique and \<^verbatim>\<open>projects.author_id\<close> references \<^verbatim>\<open>users.id\<close>
  and may be null.
\<close>

definition projects_violation :: "Database \<Rightarrow> db_error option" where
  "projects_violation d =
     (if \<not> list_all project_fits_columns (db_projects d) then Some StringTooLong
      else if \<not> distinct (map project_slug (db_projects d)) then Some UniqueViolation
      else if \<not> list_all
                  (\<lambda>p. case project_authorId p of
                          None \<Rightarrow> True
                        | Some a \<Rightarrow> a \<in> set (map user_id (db_users d)))
                  (db_projects d)
      then Some ForeignKeyViolation
      else None)"

text \<open>
  Modelled from the spec: the statement
  \<^verbatim>\<open>db.update(projects).set(v).where(c).returning()\<close> of the missing \<^verbatim>\<open>db\<close> handle.
  By the spec an update is one atomic statement and a constraint failure is raised to
  the caller. The statement rewrites the rows that satisfy \<^verbatim>\<open>c\<close> and yields the
  rewritten rows; when the rewritten table breaks a constraint it raises and the table
  stays as it was.
\<close>

definition db_update_projects_returning ::
  "Database \<Rightarrow> (Project \<Rightarrow> bool) \<Rightarrow> (Project \<Rightarrow> Project) \<Rightarrow> db_error + (Database \<times> Project list)" where
  "db_update_projects_returning d cond assign =
     (let d' = d\<lparr>db_projects := map (\<lambda>row. if cond row then assign row else row) (db_projects d)\<rparr>
      in case projects_violation d' of
           Some e \<Rightarrow> Inl e
         | None \<Rightarrow> Inr (d', map assign (filter cond (db_projects d))))"

text \<open>
  The method itself: it destructures the first element of the array that the statement
  yields, \<^verbatim>\<open>const [updatedProject] = await ...\<close>, and returns it. On an empty array
  that element is \<^verbatim>\<open>undefined\<close>, which is \<open>None\<close> here; the method has no
  \<^verbatim>\<open>throw\<close> of its own.
\<close>

definition DatabaseStorage_updateProject ::
  "Database \<Rightarrow> int \<Rightarrow> PartialProject \<Rightarrow> int \<Rightarrow> db_error + (Database \<times> Project option)" where
  "DatabaseStorage_updateProject d i project now =
     (case db_update_projects_returning d
             (\<lambda>row. project_id row = i)
             (\<lambda>row. (spread_project row project)\<lparr>project_updatedAt := now\<rparr>) of
        Inl e \<Rightarrow> Inl e
      | Inr (d', rows) \<Rightarrow>
          Inr (d', case rows of [] \<Rightarrow> None | updatedProject # _ \<Rightarrow> Some updatedProject))"

subsection \<open>Sample inputs\<close>

text \<open>A first sign-in of a user, and a later call for the same id that only brings an email.\<close>

definition sample_user :: UpsertUser where
  "sample_user =
     \<lparr>uu_id = Some ''u1'', uu_email = Some ''ada@example.com'', uu_firstName = Some ''Ada'',
      uu_lastName = Some ''Lovelace'', uu_profileImageUrl = None\<rparr>"

definition sample_user_email_only :: UpsertUser where
  "sample_user_email_only =
     \<lparr>uu_id = Some ''u1'', uu_email = Some ''ada@example.org'', uu_firstName = None,
      uu_lastName = None, uu_profileImageUrl = None\<rparr>"

text \<open>The payload of the spec's example scenario, with the slug the route derives.\<close>

definition sample_project :: InsertProject where
  "sample_project =
     \<lparr>ip_title = ''My First Project'', ip_slug = ''my-first-project'', ip_description = ''d'',
      ip_content = ''c'', ip_featuredImage = None, ip_category = ''Web'', ip_tags = None,
      ip_status = None, ip_authorId = None\<rparr>"

text \<open>The update of the example scenario: \<^verbatim>\<open>{ status: "published" }\<close>.\<close>

definition sample_patch :: PartialProject where
  "sample_patch =
     \<lparr>pp_title = None, pp_slug = None, pp_description = None, pp_content = None,
      pp_featuredImage = None, pp_category = None, pp_tags = None,
      pp_status = Some ''published'', pp_authorId = None\<rparr>"

text \<open>A contact payload whose object carries a status of its own.\<close>

definition sample_contact :: InsertContact where
  "sample_contact =
     \<lparr>ic_name = ''Grace'', ic_email = ''grace@example.com'', ic_subject = ''Hello'',
      ic_message = ''A question'', ic_id = None, ic_status = Some ''replied'',
      ic_createdAt = None\<rparr>"

text \<open>The same payload with an id of its own as well.\<close>

definition sample_contact_own_id :: InsertContact where
  "sample_contact_own_id =
     \<lparr>ic_name = ''Grace'', ic_email = ''grace@example.com'', ic_subject = ''Hello'',
      ic_message = ''A question'', ic_id = Some 99, ic_status = Some ''replied'',
      ic_createdAt = None\<rparr>"

text \<open>The store after one \<^verbatim>\<open>createProject\<close> and one \<^verbatim>\<open>createContact\<close> on a new store.\<close>

definition sample_store :: MemStorage where
  "sample_store =
     state_after new_MemStorage
       (createContact
          (state_after new_MemStorage (createProject new_MemStorage sample_project 1000 1000))
          sample_contact 1500)"

text \<open>A database whose project table holds one row, with id 1.\<close>

definition sample_database :: Database where
  "sample_database =
     \<lparr>db_users = [],
      db_projects =
        [\<lparr>project_id = 1, project_title = ''My First Project'',
          project_slug = ''my-first-project'', project_description = ''d'',
          project_content = ''c'', project_featuredImage = None, project_category = ''Web'',
          project_tags = None, project_status = ''draft'', project_authorId = None,
          project_createdAt = 1000, project_updatedAt = 1000\<rparr>]\<rparr>"

text \<open>
  A history on a new store: a project is created and deleted, another project and a
  contact are created.
\<close>

definition sample_history :: "storage_op list" where
  "sample_history =
     [CreateProject sample_project 1000 1000, DeleteProject 1,
      CreateProject sample_project 2000 2000, CreateContact sample_contact 1500]"

section \<open>Properties\<close>

subsection \<open>Maps and sorting\<close>

lemma list_all_update:
  "list_all P al \<Longrightarrow> P (k, v) \<Longrightarrow> list_all P (AList.update k v al)"
  by (induction al) auto

lemma list_all_delete: "list_all P al \<Longrightarrow> list_all P (AList.delete k al)"
  by (simp add: AList.delete_eq list_all_iff)

lemma list_all_map_of: "list_all P al \<Longrightarrow> map_of al k = Some v \<Longrightarrow> P (k, v)"
  by (induction al) (auto split: if_splits)

lemma Map_get_set: "Map_get (Map_set m k v) j = (if j = k then Some v else Map_get m j)"
  by (simp add: Map_get_def Map_set_def AList.update_conv')

lemma Map_get_delete: "Map_get (Map_delete m k) j = (if j = k then None else Map_get m j)"
  by (simp add: Map_get_def Map_delete_def AList.delete_conv')

lemma Map_delete_twice: "Map_delete (Map_delete m k) k = Map_delete m k"
  by (simp add: Map_delete_def AList.delete_idem)

lemma Map_keys_set_present:
  "Map_get m k = Some v \<Longrightarrow> Map_keys (Map_set m k w) = Map_keys m"
proof -
  assume "Map_get m k = Some v"
  then have "k \<in> set (map fst m)"
    by (metis Map_get_def map_of_eq_None_iff option.distinct(1) set_map)
  then show ?thesis
    by (simp add: Map_keys_def Map_set_def AList.update_keys)
qed

lemma sort_newest_first_sorted:
  "sorted_wrt (\<lambda>a b. created a \<ge> created b) (sort_newest_first created xs)"
proof -
  have "sorted (map (\<lambda>a. - created a) (sort_key (\<lambda>a. - created a) xs))"
    by (rule sorted_sort_key)
  then show ?thesis
    by (simp add: sort_newest_first_def sorted_map)
qed

lemma sort_newest_first_mset: "mset (sort_newest_first created xs) = mset xs"
  by (simp add: sort_newest_first_def)

lemma sort_newest_first_filter:
  "filter P (sort_newest_first created xs) = sort_newest_first created (filter P xs)"
  by (simp add: sort_newest_first_def filter_sort)

lemma sample_store_eq:
  "sample_store =
     \<lparr>users = [],
      projects =
        [(1, \<lparr>project_id = 1, project_title = ''My First Project'',
               project_slug = ''my-first-project'', project_description = ''d'',
               project_content = ''c'', project_featuredImage = None,
               project_category = ''Web'', project_tags = None, project_status = ''draft'',
               project_authorId = None, project_createdAt = 1000,
               project_updatedAt = 1000\<rparr>)],
      media = [],
      contacts =
        [(1, \<lparr>contact_id = 1, contact_name = ''Grace'', contact_email = ''grace@example.com'',
               contact_subject = ''Hello'', contact_message = ''A question'',
               contact_status = ''new'', contact_createdAt = 1500\<rparr>)],
      nextProjectId = 2, nextMediaId = 1, nextContactId = 2\<rparr>"
  by (simp add: sample_store_def state_after_def createProject_def createContact_def
      new_MemStorage_def sample_project_def sample_contact_def Let_def Map_set_def
      str_or_def str_or_null_def arr_or_null_def post_increment_def)

subsection \<open>Users\<close>

text \<open>
  What \<^verbatim>\<open>upsertUser\<close> does on an id that is stored: the creation time of the stored
  record is kept, the update time is the new reading of the clock, and every other field
  is rebuilt from the payload alone.
\<close>

lemma upsertUser_existing:
  assumes "str_or_null (uu_id userData) = Some uid"
    and "Map_get (users s) uid = Some existing"
    and "user_createdAt existing = Some c"
  shows "\<exists>s' u. upsertUser s userData now1 now2 = Inr (s', u)
      \<and> Map_get (users s') uid = Some u
      \<and> user_createdAt u = Some c \<and> user_updatedAt u = Some now2
      \<and> user_email u = str_or_null (uu_email userData)
      \<and> user_firstName u = str_or_null (uu_firstName userData)
      \<and> user_lastName u = str_or_null (uu_lastName userData)"
  using assms by (simp add: upsertUser_def Let_def Map_get_set)

text \<open>
  C1. A second \<^verbatim>\<open>upsertUser\<close> for a stored id that brings only a new email should
  leave the first and last name as the first call stored them. \<^verbatim>\<open>MemStorage\<close> does
  not: on a new store, the first call stores Ada Lovelace under \<open>u1\<close>; the second
  call, with the id and an email only, returns a record whose first and last name are
  null. The creation time is the first call's and the update time is the new reading.
\<close>

theorem upsertUser_email_only_clears_names:
  "returned (upsertUser new_MemStorage sample_user 1000 1001) =
     Some \<lparr>user_id = ''u1'', user_email = Some ''ada@example.com'',
           user_firstName = Some ''Ada'', user_lastName = Some ''Lovelace'',
           user_profileImageUrl = None, user_createdAt = Some 1000,
           user_updatedAt = Some 1001\<rparr>
   \<and> returned
        (upsertUser (state_after new_MemStorage (upsertUser new_MemStorage sample_user 1000 1001))
           sample_user_email_only 2000 2001) =
     Some \<lparr>user_id = ''u1'', user_email = Some ''ada@example.org'',
           user_firstName = None, user_lastName = None,
           user_profileImageUrl = None, user_createdAt = Some 1000,
           user_updatedAt = Some 2001\<rparr>
   \<and> getUser
        (state_after (state_after new_MemStorage (upsertUser new_MemStorage sample_user 1000 1001))
           (upsertUser (state_after new_MemStorage (upsertUser new_MemStorage sample_user 1000 1001))
              sample_user_email_only 2000 2001)) ''u1'' =
     Some \<lparr>user_id = ''u1'', user_email = Some ''ada@example.org'',
           user_firstName = None, user_lastName = None,
           user_profileImageUrl = None, user_createdAt = Some 1000,
           user_updatedAt = Some 2001\<rparr>"
  by (simp add: upsertUser_def returned_def state_after_def new_MemStorage_def sample_user_def
      sample_user_email_only_def str_or_null_def Let_def Map_get_def Map_set_def getUser_def)

subsection \<open>Projects\<close>

lemma createProject_returns: "\<exists>s' p. createProject s projectData now1 now2 = Inr (s', p)"
  by (simp add: createProject_def Let_def)

text \<open>
  C2. Two projects must not share a slug: a second \<^verbatim>\<open>createProject\<close> with a stored
  slug should fail. \<^verbatim>\<open>MemStorage.createProject\<close> never looks at the slug: on a new
  store, creating the sample project twice succeeds twice, with the ids 1 and 2, and the
  store then holds two projects with the slug \<open>my-first-project\<close>.
\<close>

theorem createProject_accepts_duplicate_slug:
  "map_option project_id (returned (createProject new_MemStorage sample_project 1000 1000)) = Some 1
   \<and> map_option project_id
        (returned
           (createProject
              (state_after new_MemStorage (createProject new_MemStorage sample_project 1000 1000))
              sample_project 2000 2000)) = Some 2
   \<and> map project_slug
        (Map_values
           (projects
              (state_after
                 (state_after new_MemStorage (createProject new_MemStorage sample_project 1000 1000))
                 (createProject
                    (state_after new_MemStorage
                       (createProject new_MemStorage sample_project 1000 1000))
                    sample_project 2000 2000)))) =
       [''my-first-project'', ''my-first-project'']"
  by (simp add: createProject_def returned_def state_after_def new_MemStorage_def
      sample_project_def Let_def Map_set_def Map_values_def post_increment_def)

text \<open>
  \<^verbatim>\<open>MemStorage.updateProject\<close> raises on an id that is not stored, and on a stored id
  it merges: a field changes exactly when the payload has its key, the update time is
  the new reading, and no other project changes.
\<close>

lemma updateProject_unknown_id:
  "Map_get (projects s) i = None \<Longrightarrow> updateProject s i projectData now = Inl (ProjectNotFound i)"
  by (simp add: updateProject_def)

lemma updateProject_merges:
  assumes "Map_get (projects s) i = Some existing"
  shows "\<exists>s' p. updateProject s i projectData now = Inr (s', p)
      \<and> Map_get (projects s') i = Some p
      \<and> (\<forall>j. j \<noteq> i \<longrightarrow> Map_get (projects s') j = Map_get (projects s) j)
      \<and> project_title p = (case pp_title projectData of None \<Rightarrow> project_title existing | Some v \<Rightarrow> v)
      \<and> project_slug p = (case pp_slug projectData of None \<Rightarrow> project_slug existing | Some v \<Rightarrow> v)
      \<and> project_description p =
          (case pp_description projectData of None \<Rightarrow> project_description existing | Some v \<Rightarrow> v)
      \<and> project_content p =
          (case pp_content projectData of None \<Rightarrow> project_content existing | Some v \<Rightarrow> v)
      \<and> project_featuredImage p =
          (case pp_featuredImage projectData of None \<Rightarrow> project_featuredImage existing | Some v \<Rightarrow> v)
      \<and> project_category p =
          (case pp_category projectData of None \<Rightarrow> project_category existing | Some v \<Rightarrow> v)
      \<and> project_tags p = (case pp_tags projectData of None \<Rightarrow> project_tags existing | Some v \<Rightarrow> v)
      \<and> project_status p =
          (case pp_status projectData of None \<Rightarrow> project_status existing | Some v \<Rightarrow> v)
      \<and> project_authorId p =
          (case pp_authorId projectData of None \<Rightarrow> project_authorId existing | Some v \<Rightarrow> v)
      \<and> project_updatedAt p = now"
  using assms by (simp add: updateProject_def Let_def Map_get_set spread_project_def)

text \<open>
  \<^verbatim>\<open>DatabaseStorage.updateProject\<close> on a consistent database and an id that no row has:
  the statement rewrites nothing, yields no row, and the method returns \<^verbatim>\<open>undefined\<close>.
\<close>

lemma DatabaseStorage_updateProject_unknown_id:
  assumes "projects_violation d = None"
    and "list_all (\<lambda>row. project_id row \<noteq> i) (db_projects d)"
  shows "DatabaseStorage_updateProject d i project now = Inr (d, None)"
proof -
  from assms(2) have same: "map (\<lambda>row. if project_id row = i
       then (spread_project row project)\<lparr>project_updatedAt := now\<rparr> else row) (db_projects d)
     = db_projects d"
    by (induction "db_projects d" arbitrary: d) (auto simp: list_all_iff map_idI)
  from assms(2) have none: "filter (\<lambda>row. project_id row = i) (db_projects d) = []"
    by (simp add: list_all_iff filter_empty_conv)
  show ?thesis
    using assms(1)
    by (simp add: DatabaseStorage_updateProject_def db_update_projects_returning_def Let_def
        same none)
qed

text \<open>
  C3. \<^verbatim>\<open>updateProject\<close> on an id that is not stored should raise a not-found error.
  \<^verbatim>\<open>MemStorage\<close> does; \<^verbatim>\<open>DatabaseStorage\<close> does not. With one project, of id 1, in the
  store, \<^verbatim>\<open>updateProject(7, { status: "published" })\<close> raises in \<^verbatim>\<open>MemStorage\<close>, while
  in \<^verbatim>\<open>DatabaseStorage\<close> it returns normally, the returned value is \<^verbatim>\<open>undefined\<close>,
  and the table is as before.
\<close>

theorem DatabaseStorage_updateProject_unknown_id_returns_undefined:
  "DatabaseStorage_updateProject sample_database 7 sample_patch 2000 = Inr (sample_database, None)
   \<and> updateProject sample_store 7 sample_patch 2000 = Inl (ProjectNotFound 7)"
  by (simp add: DatabaseStorage_updateProject_def db_update_projects_returning_def
      projects_violation_def project_fits_columns_def sample_database_def Let_def
      updateProject_def sample_store_eq Map_get_def)

text \<open>
  C10. For a project that is stored, \<^verbatim>\<open>updateProject\<close> with any partial payload of
  the insert schema returns and stores a record with the id and the creation time that
  the record had before the update.
\<close>

theorem updateProject_keeps_id_and_createdAt:
  assumes "Map_get (projects s) i = Some existing"
  shows "\<exists>s' p. updateProject s i projectData now = Inr (s', p)
      \<and> Map_get (projects s') i = Some p
      \<and> project_id p = project_id existing
      \<and> project_createdAt p = project_createdAt existing"
  using assms by (simp add: updateProject_def Let_def Map_get_set spread_project_def)

theorem updateProject_keeps_id_and_createdAt_witness:
  "Map_get (projects sample_store) 1 \<noteq> None
   \<and> (\<exists>s' p. updateProject sample_store 1 sample_patch 2000 = Inr (s', p)
        \<and> Map_get (projects s') 1 = Some p
        \<and> project_id p = 1 \<and> project_createdAt p = 1000
        \<and> project_status p = ''published'' \<and> project_updatedAt p = 2000)"
proof -
  let ?e = "\<lparr>project_id = 1, project_title = ''My First Project'',
             project_slug = ''my-first-project'', project_description = ''d'',
             project_content = ''c'', project_featuredImage = None,
             project_category = ''Web'', project_tags = None, project_status = ''draft'',
             project_authorId = None, project_createdAt = 1000, project_updatedAt = 1000\<rparr>"
  have stored: "Map_get (projects sample_store) 1 = Some ?e"
    by (simp add: sample_store_eq Map_get_def)
  from updateProject_keeps_id_and_createdAt [OF stored, of sample_patch 2000] stored
  show ?thesis
    by (auto simp: updateProject_def Let_def spread_project_def sample_patch_def)
qed

text \<open>
  What \<^verbatim>\<open>createProject\<close> does for every state and payload. It returns; the project
  it returns carries the counter's value as its id and is stored under it, and the
  counter is incremented. A payload without a status gives the status \<open>draft\<close>; a
  payload without tags, author or featured image gives null there. The creation time is
  the first reading of the clock and the update time the second.
\<close>

lemma post_increment_below: "n < 2 ^ 53 \<Longrightarrow> post_increment n = n + 1"
  by (simp add: post_increment_def)

lemma createProject_defaults:
  "\<exists>s' p. createProject s projectData now1 now2 = Inr (s', p)
      \<and> project_id p = nextProjectId s
      \<and> nextProjectId s' = post_increment (nextProjectId s)
      \<and> Map_get (projects s') (nextProjectId s) = Some p
      \<and> (ip_status projectData = None \<longrightarrow> project_status p = ''draft'')
      \<and> (ip_tags projectData = None \<longrightarrow> project_tags p = None)
      \<and> (ip_authorId projectData = None \<longrightarrow> project_authorId p = None)
      \<and> (ip_featuredImage projectData = None \<longrightarrow> project_featuredImage p = None)
      \<and> project_createdAt p = now1
      \<and> project_updatedAt p = now2"
  by (simp add: createProject_def Let_def Map_get_set str_or_def str_or_null_def arr_or_null_def)

text \<open>
  C7. \<^verbatim>\<open>createProject\<close> should stamp the creation time and the update time of a new
  project identically. \<^verbatim>\<open>MemStorage.createProject\<close> evaluates \<^verbatim>\<open>new Date()\<close> once
  for \<^verbatim>\<open>createdAt\<close> and once more for \<^verbatim>\<open>updatedAt\<close>. When the clock advances between
  the two readings, 1000 and then 1001, the project of the sample payload is returned
  with the creation time 1000 and the update time 1001.
\<close>

theorem createProject_timestamps_differ:
  "map_option project_createdAt
     (returned (createProject new_MemStorage sample_project 1000 1001)) = Some 1000
   \<and> map_option project_updatedAt
     (returned (createProject new_MemStorage sample_project 1000 1001)) = Some 1001"
  by (simp add: createProject_def returned_def Let_def)

text \<open>
  C6. \<^verbatim>\<open>getProjects("published")\<close> returns exactly the stored projects whose status is
  \<open>published\<close>, each as often as it is stored, by descending creation time. Without a
  filter it returns all stored projects by descending creation time, and the filtered
  answer is the unfiltered one with the other projects left out, in the same order.
\<close>

theorem getProjects_published:
  "mset (getProjects s (Some ''published'')) =
     mset (filter (\<lambda>p. project_status p = ''published'') (Map_values (projects s)))
   \<and> sorted_wrt (\<lambda>a b. project_createdAt a \<ge> project_createdAt b)
        (getProjects s (Some ''published''))
   \<and> mset (getProjects s None) = mset (Map_values (projects s))
   \<and> sorted_wrt (\<lambda>a b. project_createdAt a \<ge> project_createdAt b) (getProjects s None)
   \<and> getProjects s (Some ''published'') =
        filter (\<lambda>p. project_status p = ''published'') (getProjects s None)"
  by (simp add: getProjects_def Let_def str_or_null_def sort_newest_first_sorted
      sort_newest_first_mset sort_newest_first_filter)

text \<open>
  C5. \<^verbatim>\<open>deleteProject\<close> and \<^verbatim>\<open>deleteMedia\<close> return normally for every id and every
  state, the id is not stored afterwards, and a second call with the same id returns
  normally with the state that the first call left.
\<close>

theorem delete_twice_is_noop:
  "(\<exists>s1. deleteProject s i = Inr (s1, ()) \<and> getProject s1 i = None
        \<and> deleteProject s1 i = Inr (s1, ()))
   \<and> (\<exists>s2. deleteMedia s j = Inr (s2, ()) \<and> getMediaById s2 j = None
        \<and> deleteMedia s2 j = Inr (s2, ()))"
  by (simp add: deleteProject_def deleteMedia_def getProject_def getMediaById_def
      Map_get_delete Map_delete_twice)

subsection \<open>Contacts\<close>

text \<open>
  What \<^verbatim>\<open>createContact\<close> does for every state and payload, also one that carries a
  status or a creation time of its own. It returns; the record has the status \<open>new\<close>
  and the reading of the clock as its creation time, it is stored under the counter's
  value, and the counter is incremented. The id of the record is the counter's value
  when the payload carries no id, and the payload's id otherwise.
\<close>

lemma createContact_result:
  "\<exists>s' c. createContact s contactData now = Inr (s', c)
      \<and> contact_status c = ''new''
      \<and> contact_createdAt c = now
      \<and> Map_get (contacts s') (nextContactId s) = Some c
      \<and> nextContactId s' = post_increment (nextContactId s)
      \<and> (ic_id contactData = None \<longrightarrow> contact_id c = nextContactId s)
      \<and> (\<forall>v. ic_id contactData = Some v \<longrightarrow> contact_id c = v)"
  by (simp add: createContact_def Let_def Map_get_set)


text \<open>
  C9. \<^verbatim>\<open>updateContactStatus\<close> on an id that is not stored returns normally and leaves
  the state as it was. On a stored id it returns normally and the new state differs from
  the old one only in the contact map: the keys and their order are the same, the record
  under the id is the old record with the new status and nothing else changed, and
  every other id maps to what it mapped to before.
\<close>

theorem updateContactStatus_frame:
  "(Map_get (contacts s) i = None \<longrightarrow> updateContactStatus s i status = Inr (s, ()))
   \<and> (\<forall>existing. Map_get (contacts s) i = Some existing \<longrightarrow>
        (\<exists>s'. updateContactStatus s i status = Inr (s', ())
           \<and> s' = s\<lparr>contacts := contacts s'\<rparr>
           \<and> Map_keys (contacts s') = Map_keys (contacts s)
           \<and> Map_get (contacts s') i = Some (existing\<lparr>contact_status := status\<rparr>)
           \<and> (\<forall>j. j \<noteq> i \<longrightarrow> Map_get (contacts s') j = Map_get (contacts s) j)))"
  by (simp add: updateContactStatus_def Map_get_set Map_keys_set_present)

theorem updateContactStatus_frame_witness:
  "Map_get (contacts sample_store) 5 = None
   \<and> updateContactStatus sample_store 5 ''read'' = Inr (sample_store, ())
   \<and> Map_get (contacts sample_store) 1 \<noteq> None
   \<and> (\<exists>s'. updateContactStatus sample_store 1 ''read'' = Inr (s', ())
        \<and> s' = sample_store\<lparr>contacts := contacts s'\<rparr>
        \<and> Map_keys (contacts s') = [1]
        \<and> Map_get (contacts s') 1 =
            Some \<lparr>contact_id = 1, contact_name = ''Grace'', contact_email = ''grace@example.com'',
                  contact_subject = ''Hello'', contact_message = ''A question'',
                  contact_status = ''read'', contact_createdAt = 1500\<rparr>)"
proof -
  have absent: "Map_get (contacts sample_store) 5 = None"
    by (simp add: sample_store_eq Map_get_def)
  have present: "Map_get (contacts sample_store) 1 =
      Some \<lparr>contact_id = 1, contact_name = ''Grace'', contact_email = ''grace@example.com'',
            contact_subject = ''Hello'', contact_message = ''A question'',
            contact_status = ''new'', contact_createdAt = 1500\<rparr>"
    by (simp add: sample_store_eq Map_get_def)
  have keys: "Map_keys (contacts sample_store) = [1]"
    by (simp add: sample_store_eq Map_keys_def)
  from updateContactStatus_frame [of sample_store 5 "''read''"] absent
  have a: "updateContactStatus sample_store 5 ''read'' = Inr (sample_store, ())"
    by simp
  from updateContactStatus_frame [of sample_store 1 "''read''"] present keys
  have b: "\<exists>s'. updateContactStatus sample_store 1 ''read'' = Inr (s', ())
        \<and> s' = sample_store\<lparr>contacts := contacts s'\<rparr>
        \<and> Map_keys (contacts s') = [1]
        \<and> Map_get (contacts s') 1 =
            Some \<lparr>contact_id = 1, contact_name = ''Grace'', contact_email = ''grace@example.com'',
                  contact_subject = ''Hello'', contact_message = ''A question'',
                  contact_status = ''read'', contact_createdAt = 1500\<rparr>"
    by auto
  from absent present a b show ?thesis by simp
qed

subsection \<open>Identifiers over a history\<close>

lemma new_MemStorage_inv: "store_inv new_MemStorage"
  by (simp add: store_inv_def new_MemStorage_def Map_keys_def)

lemma post_increment_ge: "n \<le> post_increment n"
  by (simp add: post_increment_def)

lemma post_increment_le: "post_increment n \<le> n + 1"
  by (simp add: post_increment_def)

text \<open>
  A create keeps the invariant while its counter is below \<open>2^53\<close>, for a contact when
  the payload carries no id of its own; a delete keeps it always.
\<close>

lemma createProject_inv:
  assumes "store_inv s" and "nextProjectId s < 2 ^ 53"
  shows "store_inv (state_after s (createProject s projectData now1 now2))"
proof -
  from assms
  have "list_all (\<lambda>(k, p). k < nextProjectId s + 1 \<and> project_id p = k) (projects s)"
    by (auto simp: store_inv_def list_all_iff)
  then show ?thesis using assms
    by (simp add: store_inv_def state_after_def createProject_def Let_def Map_set_def
        Map_keys_def list_all_update AList.distinct_update post_increment_def)
qed

lemma createMedia_inv:
  assumes "store_inv s" and "nextMediaId s < 2 ^ 53"
  shows "store_inv (state_after s (createMedia s mediaData now))"
proof -
  from assms
  have "list_all (\<lambda>(k, m). k < nextMediaId s + 1 \<and> media_id m = k) (media s)"
    by (auto simp: store_inv_def list_all_iff)
  then show ?thesis using assms
    by (simp add: store_inv_def state_after_def createMedia_def Let_def Map_set_def
        Map_keys_def list_all_update AList.distinct_update post_increment_def)
qed

lemma createContact_inv:
  assumes "store_inv s" and "nextContactId s < 2 ^ 53" and "ic_id contactData = None"
  shows "store_inv (state_after s (createContact s contactData now))"
proof -
  from assms
  have "list_all (\<lambda>(k, c). k < nextContactId s + 1 \<and> contact_id c = k) (contacts s)"
    by (auto simp: store_inv_def list_all_iff)
  then show ?thesis using assms
    by (simp add: store_inv_def state_after_def createContact_def Let_def Map_set_def
        Map_keys_def list_all_update AList.distinct_update post_increment_def)
qed

lemma deleteProject_inv: "store_inv s \<Longrightarrow> store_inv (state_after s (deleteProject s i))"
  by (simp add: store_inv_def state_after_def deleteProject_def Map_delete_def Map_keys_def
      list_all_delete AList.distinct_delete)

lemma deleteMedia_inv: "store_inv s \<Longrightarrow> store_inv (state_after s (deleteMedia s i))"
  by (simp add: store_inv_def state_after_def deleteMedia_def Map_delete_def Map_keys_def
      list_all_delete AList.distinct_delete)

lemma step_inv:
  assumes "store_inv s" and "\<And>e. counter e s < 2 ^ 53" and "carries_no_id x"
  shows "store_inv (fst (step s x))"
proof -
  from assms(2) [of ProjectEntity] have p: "nextProjectId s < 2 ^ 53" by simp
  from assms(2) [of MediaEntity] have m: "nextMediaId s < 2 ^ 53" by simp
  from assms(2) [of ContactEntity] have c: "nextContactId s < 2 ^ 53" by simp
  from assms(1,3) p m c show ?thesis
    by (cases x)
      (simp_all add: Let_def createProject_inv deleteProject_inv createMedia_inv
        deleteMedia_inv createContact_inv)
qed

text \<open>
  A counter never goes down and moves by one at most. A create whose payload carries no
  id hands out the counter's old value.
\<close>

lemma step_counter_mono: "counter e s \<le> counter e (fst (step s x))"
  by (cases x; cases e)
    (simp_all add: Let_def state_after_def createProject_def deleteProject_def
      createMedia_def deleteMedia_def createContact_def post_increment_ge)

lemma step_counter_le: "counter e (fst (step s x)) \<le> counter e s + 1"
  by (cases x; cases e)
    (simp_all add: Let_def state_after_def createProject_def deleteProject_def
      createMedia_def deleteMedia_def createContact_def post_increment_le)

lemma step_assigned_counter:
  "(e, i) \<in> set (snd (step s x)) \<Longrightarrow> carries_no_id x \<Longrightarrow> i = counter e s"
  by (cases x; cases e)
    (simp_all add: Let_def assigned_def returned_def createProject_def createMedia_def
      createContact_def)

lemma step_assigned_below:
  assumes "(e, i) \<in> set (snd (step s x))" and "carries_no_id x" and "counter e s < 2 ^ 53"
  shows "i < counter e (fst (step s x))"
  using assms
  by (cases x; cases e)
    (simp_all add: Let_def assigned_def returned_def state_after_def createProject_def
      createMedia_def createContact_def post_increment_def)

lemma step_assigned_distinct: "distinct (snd (step s x))"
  by (cases x) (simp_all add: Let_def assigned_def split: option.splits)

lemma run_Cons_fst: "fst (run s (x # xs)) = fst (run (fst (step s x)) xs)"
  by (simp add: Let_def split_beta)

lemma run_Cons_snd: "snd (run s (x # xs)) = snd (step s x) @ snd (run (fst (step s x)) xs)"
  by (simp add: Let_def split_beta)

lemma run_inv:
  assumes "store_inv s" and "\<And>e. counter e s + int (length xs) \<le> 2 ^ 53"
    and "list_all carries_no_id xs"
  shows "store_inv (fst (run s xs))"
  using assms
proof (induction xs arbitrary: s)
  case Nil
  then show ?case by simp
next
  case (Cons x xs)
  have below: "counter e s < 2 ^ 53" for e
    using Cons.prems(2) [of e] by simp
  from Cons.prems(3) have x: "carries_no_id x" and xs: "list_all carries_no_id xs"
    by simp_all
  from Cons.prems(1) below x have inv: "store_inv (fst (step s x))"
    by (rule step_inv)
  have "counter e (fst (step s x)) + int (length xs) \<le> 2 ^ 53" for e
    using step_counter_le [of e s x] Cons.prems(2) [of e] by simp
  with inv have "store_inv (fst (run (fst (step s x)) xs))"
    using xs by (rule Cons.IH)
  then show ?case by (simp only: run_Cons_fst)
qed

lemma run_assigned_ge:
  assumes "(e, i) \<in> set (snd (run s xs))" and "list_all carries_no_id xs"
  shows "counter e s \<le> i"
  using assms
proof (induction xs arbitrary: s)
  case Nil
  then show ?case by simp
next
  case (Cons x xs)
  from Cons.prems(2) have x: "carries_no_id x" and xs: "list_all carries_no_id xs"
    by simp_all
  from Cons.prems(1)
  have "(e, i) \<in> set (snd (step s x)) \<or> (e, i) \<in> set (snd (run (fst (step s x)) xs))"
    by (simp only: run_Cons_snd set_append Un_iff)
  then show ?case
  proof
    assume "(e, i) \<in> set (snd (step s x))"
    then show ?thesis using x step_assigned_counter by fastforce
  next
    assume "(e, i) \<in> set (snd (run (fst (step s x)) xs))"
    then have "counter e (fst (step s x)) \<le> i" using xs by (rule Cons.IH)
    with step_counter_mono [of e s x] show ?thesis by linarith
  qed
qed

lemma run_assigned_distinct:
  assumes "\<And>e. counter e s + int (length xs) \<le> 2 ^ 53" and "list_all carries_no_id xs"
  shows "distinct (snd (run s xs))"
  using assms
proof (induction xs arbitrary: s)
  case Nil
  then show ?case by simp
next
  case (Cons x xs)
  from Cons.prems(2) have x: "carries_no_id x" and xs: "list_all carries_no_id xs"
    by simp_all
  have below: "counter e s < 2 ^ 53" for e
    using Cons.prems(1) [of e] by simp
  have rest: "counter e (fst (step s x)) + int (length xs) \<le> 2 ^ 53" for e
    using step_counter_le [of e s x] Cons.prems(1) [of e] by simp
  have "set (snd (step s x)) \<inter> set (snd (run (fst (step s x)) xs)) = {}"
  proof (rule ccontr)
    assume "\<not> ?thesis"
    then obtain e i where early: "(e, i) \<in> set (snd (step s x))"
      and late: "(e, i) \<in> set (snd (run (fst (step s x)) xs))" by auto
    from early x below have "i < counter e (fst (step s x))"
      by (rule step_assigned_below)
    moreover from late xs have "counter e (fst (step s x)) \<le> i"
      by (rule run_assigned_ge)
    ultimately show False by linarith
  qed
  moreover from rest xs have "distinct (snd (run (fst (step s x)) xs))"
    by (rule Cons.IH)
  ultimately show ?case using step_assigned_distinct [of s x]
    by (simp only: run_Cons_snd distinct_append)
qed

text \<open>
  A short history: a project is created, deleted, and another one is created. The
  second create hands out 2, not the freed 1.
\<close>

lemma run_create_delete_create:
  "snd (run new_MemStorage
          [CreateProject sample_project 1000 1000, DeleteProject 1,
           CreateProject sample_project 2000 2000]) =
     [(ProjectEntity, 1), (ProjectEntity, 2)]"
  by (simp add: Let_def createProject_def deleteProject_def state_after_def assigned_def
      returned_def new_MemStorage_def post_increment_def)

text \<open>
  A history of \<open>n\<close> creates of one contact payload without an id: the identifiers
  handed out count up from the counter and stay at \<open>2^53\<close> once they are there.
\<close>

lemma min_post_increment:
  "c \<le> 2 ^ 53 \<Longrightarrow> min (post_increment c + int k) (2 ^ 53) = min (c + int (Suc k)) (2 ^ 53)"
  by (auto simp: post_increment_def)

lemma run_replicate_CreateContact:
  assumes "ic_id contactData = None" and "nextContactId s \<le> 2 ^ 53"
  shows "snd (run s (replicate n (CreateContact contactData now))) =
      map (\<lambda>k. (ContactEntity, min (nextContactId s + int k) (2 ^ 53))) [0..<n]"
  using assms(2)
proof (induction n arbitrary: s)
  case 0
  then show ?case by simp
next
  case (Suc n)
  let ?s1 = "fst (step s (CreateContact contactData now))"
  have first: "snd (step s (CreateContact contactData now)) = [(ContactEntity, nextContactId s)]"
    using assms(1) by (simp add: Let_def assigned_def returned_def createContact_def)
  have next_id: "nextContactId ?s1 = post_increment (nextContactId s)"
    by (simp add: Let_def state_after_def createContact_def)
  then have "nextContactId ?s1 \<le> 2 ^ 53"
    using Suc.prems by (simp add: post_increment_def)
  then have "snd (run ?s1 (replicate n (CreateContact contactData now))) =
      map (\<lambda>k. (ContactEntity, min (nextContactId ?s1 + int k) (2 ^ 53))) [0..<n]"
    by (rule Suc.IH)
  also have "\<dots> = map (\<lambda>k. (ContactEntity, min (nextContactId s + int (Suc k)) (2 ^ 53))) [0..<n]"
    using Suc.prems by (simp only: next_id min_post_increment)
  finally have rest: "snd (run ?s1 (replicate n (CreateContact contactData now))) =
      map (\<lambda>k. (ContactEntity, min (nextContactId s + int (Suc k)) (2 ^ 53))) [0..<n]" .
  have "snd (run s (replicate (Suc n) (CreateContact contactData now))) =
      (ContactEntity, nextContactId s) #
      map (\<lambda>k. (ContactEntity, min (nextContactId s + int (Suc k)) (2 ^ 53))) [0..<n]"
    by (simp only: replicate_Suc run_Cons_snd first rest append_Cons append_Nil)
  also have "\<dots> =
      map (\<lambda>k. (ContactEntity, min (nextContactId s + int k) (2 ^ 53))) [0..<Suc n]"
    using Suc.prems by (simp only: map_upt_Suc) simp
  finally show ?case .
qed

text \<open>
  C8, as amended. In every history of fewer than \<open>2^53\<close> creates and deletes on a new
  store, in which no contact payload carries an id of its own, no identifier that a
  create handed out is handed out again by a later create of the same entity type,
  whatever was deleted in between. At the end of the history no two stored projects
  share a key, nor two media records, nor two contacts, and every stored record carries
  the identifier it is stored under.
\<close>

theorem identifiers_never_reused_within_bound:
  assumes "int (length ops) < 2 ^ 53" and "list_all carries_no_id ops"
  shows "distinct (snd (run new_MemStorage ops))
   \<and> distinct (Map_keys (projects (fst (run new_MemStorage ops))))
   \<and> distinct (Map_keys (media (fst (run new_MemStorage ops))))
   \<and> distinct (Map_keys (contacts (fst (run new_MemStorage ops))))
   \<and> list_all (\<lambda>(k, p). project_id p = k) (projects (fst (run new_MemStorage ops)))
   \<and> list_all (\<lambda>(k, m). media_id m = k) (media (fst (run new_MemStorage ops)))
   \<and> list_all (\<lambda>(k, c). contact_id c = k) (contacts (fst (run new_MemStorage ops)))"
proof -
  have fits: "counter e new_MemStorage + int (length ops) \<le> 2 ^ 53" for e
    using assms(1) by (cases e) (simp_all add: new_MemStorage_def)
  from new_MemStorage_inv fits assms(2) have "store_inv (fst (run new_MemStorage ops))"
    by (rule run_inv)
  moreover from fits assms(2) have "distinct (snd (run new_MemStorage ops))"
    by (rule run_assigned_distinct)
  ultimately show ?thesis
    by (auto simp: store_inv_def list_all_iff)
qed

theorem identifiers_never_reused_within_bound_witness:
  "int (length sample_history) < 2 ^ 53 \<and> list_all carries_no_id sample_history
   \<and> snd (run new_MemStorage sample_history) =
       [(ProjectEntity, 1), (ProjectEntity, 2), (ContactEntity, 1)]
   \<and> distinct (snd (run new_MemStorage sample_history))
   \<and> distinct (Map_keys (projects (fst (run new_MemStorage sample_history))))
   \<and> distinct (Map_keys (contacts (fst (run new_MemStorage sample_history))))"
proof -
  have len: "int (length sample_history) < 2 ^ 53"
    by (simp add: sample_history_def)
  have typed: "list_all carries_no_id sample_history"
    by (simp add: sample_history_def sample_contact_def)
  have ids: "snd (run new_MemStorage sample_history) =
       [(ProjectEntity, 1), (ProjectEntity, 2), (ContactEntity, 1)]"
    by (simp add: sample_history_def Let_def createProject_def deleteProject_def
        createContact_def state_after_def assigned_def returned_def new_MemStorage_def
        post_increment_def sample_contact_def)
  from identifiers_never_reused_within_bound [OF len typed] len typed ids
  show ?thesis by simp
qed

text \<open>
  The claim as it was stated, for every finite history, fails in two ways. After
  \<open>2^53\<close> creates of a contact the counter stays at \<open>2^53\<close>, so among \<open>2^53 + 1\<close>
  creates two are handed the same identifier. And two creates of a contact whose
  payload carries the id 99 both return a record with the id 99, and the store then
  holds two contacts with that id.
\<close>

theorem identifiers_reused:
  "\<not> distinct
       (snd (run new_MemStorage (replicate (2 ^ 53 + 1) (CreateContact sample_contact 1500))))
   \<and> snd (run new_MemStorage
            [CreateContact sample_contact_own_id 1500,
             CreateContact sample_contact_own_id 1600]) =
       [(ContactEntity, 99), (ContactEntity, 99)]
   \<and> map contact_id
        (Map_values
           (contacts
              (fst (run new_MemStorage
                      [CreateContact sample_contact_own_id 1500,
                       CreateContact sample_contact_own_id 1600])))) = [99, 99]"
proof -
  let ?f = "\<lambda>k. (ContactEntity, min (nextContactId new_MemStorage + int k) (2 ^ 53))"
  let ?N = "2 ^ 53 :: nat"
  have no_id: "ic_id sample_contact = None"
    by (simp add: sample_contact_def)
  have start: "nextContactId new_MemStorage \<le> 2 ^ 53"
    by (simp add: new_MemStorage_def)
  have eq: "snd (run new_MemStorage (replicate (?N + 1) (CreateContact sample_contact 1500))) =
      map ?f [0..<?N + 1]"
    using no_id start by (rule run_replicate_CreateContact)
  have same: "?f (?N - 1) = ?f ?N"
    by (simp add: new_MemStorage_def)
  have "\<not> inj_on ?f (set [0..<?N + 1])"
  proof
    assume inj: "inj_on ?f (set [0..<?N + 1])"
    have early: "?N - 1 \<in> set [0..<?N + 1]" and late: "?N \<in> set [0..<?N + 1]"
      by simp_all
    from inj same early late have "?N - 1 = ?N" by (rule inj_onD)
    then show False by simp
  qed
  then have "\<not> distinct (map ?f [0..<?N + 1])"
    by (simp only: distinct_map) simp
  then have first: "\<not> distinct
       (snd (run new_MemStorage (replicate (2 ^ 53 + 1) (CreateContact sample_contact 1500))))"
    by (simp only: eq not_False_eq_True)
  have second: "snd (run new_MemStorage
            [CreateContact sample_contact_own_id 1500,
             CreateContact sample_contact_own_id 1600]) =
       [(ContactEntity, 99), (ContactEntity, 99)]"
    by (simp add: Let_def createContact_def state_after_def assigned_def returned_def
        new_MemStorage_def post_increment_def sample_contact_own_id_def)
  have third: "map contact_id
        (Map_values
           (contacts
              (fst (run new_MemStorage
                      [CreateContact sample_contact_own_id 1500,
                       CreateContact sample_contact_own_id 1600])))) = [99, 99]"
    by (simp add: Let_def createContact_def state_after_def new_MemStorage_def
        post_increment_def sample_contact_own_id_def Map_set_def Map_values_def)
  from first second third show ?thesis by simp
qed

end
